theory Spec2Isabelle
  imports Main
begin

section \<open>The gitingest wrapper script\<close>

text \<open>
  A shallow embedding of \<^verbatim>\<open>backend/scripts/gitingest_wrapper.py\<close>. The script reads
  \<^verbatim>\<open>sys.argv\<close>, imports \<^verbatim>\<open>gitingest.ingest\<close>, calls it on the first argument, caps the
  content at 50000 characters and prints one JSON object. What the script does not own
  (the import of the package and the call of \<^verbatim>\<open>ingest\<close>) is a parameter of the model.
\<close>

subsection \<open>Python values\<close>

text \<open>
  A Python \<^verbatim>\<open>str\<close> is a sequence of code points, and \<^verbatim>\<open>len\<close> and slicing count code
  points, so a string is a list of code point numbers. \<open>py\<close> reads an ASCII literal of the
  source. A value that is either text or \<^verbatim>\<open>None\<close> is an option.
\<close>

type_synonym py_str = "nat list"

definition py :: "string \<Rightarrow> py_str" where
  "py s = map of_char s"

type_synonym py_text = "py_str option"

text \<open>
  An exception instance, as far as \<^verbatim>\<open>main\<close> can tell instances apart: which of its two
  \<^verbatim>\<open>except\<close> clauses the instance matches, and what \<^verbatim>\<open>str(e)\<close> gives.
  \<open>ImportError\<close> is an instance of \<^verbatim>\<open>ImportError\<close> (or of a subclass such as
  \<^verbatim>\<open>ModuleNotFoundError\<close>), \<open>OtherException\<close> an instance of \<^verbatim>\<open>Exception\<close> that is not an
  \<^verbatim>\<open>ImportError\<close>. Neither clause matches an instance of \<^verbatim>\<open>BaseException\<close> outside
  \<^verbatim>\<open>Exception\<close>: \<open>SystemExit n\<close> is an instance of \<^verbatim>\<open>SystemExit\<close> whose code makes the
  interpreter leave with status \<open>n\<close> (the code itself when it is an integer, 0 when it
  is \<^verbatim>\<open>None\<close>, 1 for any other code), and \<open>NonException\<close> is any other instance
  (\<^verbatim>\<open>KeyboardInterrupt\<close>, \<^verbatim>\<open>GeneratorExit\<close>).
\<close>

datatype exc_class = ImportError | OtherException | SystemExit int | NonException

text \<open>An instance of \<^verbatim>\<open>Exception\<close>: what \<^verbatim>\<open>except Exception\<close> matches.\<close>

fun is_Exception :: "exc_class \<Rightarrow> bool" where
  "is_Exception ImportError = True"
| "is_Exception OtherException = True"
| "is_Exception (SystemExit n) = False"
| "is_Exception NonException = False"

datatype py_exc = PyExc (cls: exc_class) (str: py_str)

text \<open>
  \<^verbatim>\<open>len(None)\<close> raises a \<^verbatim>\<open>TypeError\<close>, an \<^verbatim>\<open>Exception\<close>; this is CPython's message.
\<close>

definition len_None_error :: py_exc where
  "len_None_error = PyExc OtherException (py ''object of type 'NoneType' has no len()'')"

text \<open>\<^verbatim>\<open>x or ""\<close>: \<^verbatim>\<open>None\<close> and the empty string are falsy.\<close>

definition truthy :: "py_text \<Rightarrow> bool" where
  "truthy x = (case x of None \<Rightarrow> False | Some s \<Rightarrow> s \<noteq> [])"

definition or_empty :: "py_text \<Rightarrow> py_str" where
  "or_empty x = (case x of None \<Rightarrow> [] | Some s \<Rightarrow> if truthy x then s else [])"

subsection \<open>The collaborator\<close>

text \<open>
  \<^verbatim>\<open>ingest(repo_url)\<close> returns a triple (summary, tree, content), each text or
  \<^verbatim>\<open>None\<close>, or raises. \<^verbatim>\<open>from gitingest import ingest\<close> binds the function or raises
  (an \<^verbatim>\<open>ImportError\<close> when the package is not installed).
\<close>

type_synonym digest = "py_text \<times> py_text \<times> py_text"

type_synonym ingest_fn = "py_str \<Rightarrow> py_exc + digest"

type_synonym gitingest_import = "py_exc + ingest_fn"

subsection \<open>JSON\<close>

text \<open>
  The dictionaries of the script hold booleans and strings. A dictionary keeps the order
  in which its keys were written, and \<^verbatim>\<open>json.dumps\<close> follows it.
\<close>

datatype json_value = JBool bool | JStr py_str

type_synonym py_dict = "(py_str \<times> json_value) list"

definition hex_digit :: "nat \<Rightarrow> char" where
  "hex_digit d = ''0123456789abcdef'' ! (d mod 16)"

text \<open>\<^verbatim>\<open>'\\u{0:04x}'.format(n)\<close> for \<open>n < 0x10000\<close>.\<close>

definition u_escape :: "nat \<Rightarrow> string" where
  "u_escape n =
     [CHR 0x5C, CHR ''u'', hex_digit (n div 4096), hex_digit (n div 256),
      hex_digit (n div 16), hex_digit n]"

text \<open>
  One character under \<^verbatim>\<open>ensure_ascii=True\<close> (the default): the quote, the backslash and
  five control characters have short escapes, printable ASCII is kept, and everything
  else is a \<^verbatim>\<open>\uXXXX\<close> escape, a surrogate pair beyond the basic plane.
\<close>

definition encode_char :: "nat \<Rightarrow> string" where
  "encode_char c =
     (if c = 0x5C then [CHR 0x5C, CHR 0x5C]
      else if c = 0x22 then [CHR 0x5C, CHR 0x22]
      else if c = 0x08 then [CHR 0x5C, CHR ''b'']
      else if c = 0x0C then [CHR 0x5C, CHR ''f'']
      else if c = 0x0A then [CHR 0x5C, CHR ''n'']
      else if c = 0x0D then [CHR 0x5C, CHR ''r'']
      else if c = 0x09 then [CHR 0x5C, CHR ''t'']
      else if 0x20 \<le> c \<and> c \<le> 0x7E then [char_of c]
      else if c < 0x10000 then u_escape c
      else u_escape (0xD800 + ((c - 0x10000) div 1024) mod 1024)
           @ u_escape (0xDC00 + (c - 0x10000) mod 1024))"

definition encode_str :: "py_str \<Rightarrow> string" where
  "encode_str s = [CHR 0x22] @ concat (map encode_char s) @ [CHR 0x22]"

fun dumps_value :: "json_value \<Rightarrow> string" where
  "dumps_value (JBool b) = (if b then ''true'' else ''false'')"
| "dumps_value (JStr s) = encode_str s"

fun join :: "string \<Rightarrow> string list \<Rightarrow> string" where
  "join sep [] = []"
| "join sep [x] = x"
| "join sep (x # y # ys) = x @ sep @ join sep (y # ys)"

definition dumps_item :: "py_str \<times> json_value \<Rightarrow> string" where
  "dumps_item kv = encode_str (fst kv) @ '': '' @ dumps_value (snd kv)"

definition json_dumps :: "py_dict \<Rightarrow> string" where
  "json_dumps d = ''{'' @ join '', '' (map dumps_item d) @ ''}''"

subsection \<open>The process\<close>

text \<open>
  A run of the script: the dictionaries it serialised and printed, in order, and how the
  process ended: with an exit status (0 when \<^verbatim>\<open>main\<close> returns, the code of a
  \<^verbatim>\<open>SystemExit\<close> otherwise, that of \<^verbatim>\<open>sys.exit(1)\<close> included), or with another exception
  that no clause caught, which the interpreter reports on standard error.
\<close>

datatype ending = Exit int | Uncaught py_exc

record run =
  printed :: "py_dict list"
  status :: ending

text \<open>\<^verbatim>\<open>print\<close> writes the text and a newline.\<close>

definition stdout :: "run \<Rightarrow> string" where
  "stdout r = concat (map (\<lambda>d. json_dumps d @ [CHR 0x0A]) (printed r))"

definition failure :: "py_str \<Rightarrow> py_dict" where
  "failure e = [(py ''success'', JBool False), (py ''error'', JStr e)]"

definition max_content_size :: nat where
  "max_content_size = 50000"

definition truncation_marker :: py_str where
  "truncation_marker = py ''\<newline>\<newline>... [Content truncated for size]''"

text \<open>
  The body of the \<^verbatim>\<open>try\<close> block up to the dictionary handed to \<^verbatim>\<open>json.dumps\<close>: the
  import, the call, the length check with the slice, and the three \<^verbatim>\<open>or ""\<close>. The first
  exception raised ends it; \<^verbatim>\<open>len(content)\<close> raises when the content is \<^verbatim>\<open>None\<close>.
\<close>

definition main_try :: "gitingest_import \<Rightarrow> py_str \<Rightarrow> py_exc + py_dict" where
  "main_try imp repo_url =
     (case imp of
        Inl e \<Rightarrow> Inl e
      | Inr ingest \<Rightarrow>
          (case ingest repo_url of
             Inl e \<Rightarrow> Inl e
           | Inr (summary, tree, content) \<Rightarrow>
               (case content of
                  None \<Rightarrow> Inl len_None_error
                | Some c \<Rightarrow>
                    let content' =
                          (if length c > max_content_size
                           then take max_content_size c @ truncation_marker
                           else c)
                    in Inr [(py ''success'', JBool True),
                            (py ''summary'', JStr (or_empty summary)),
                            (py ''tree'', JStr (or_empty tree)),
                            (py ''content'', JStr (or_empty (Some content')))])))"

definition main :: "py_str list \<Rightarrow> gitingest_import \<Rightarrow> run" where
  "main argv imp =
     (if length argv < 2
      then \<lparr>printed = [failure (py ''No repository URL provided'')], status = Exit 1\<rparr>
      else
        let repo_url = argv ! 1 in
        (case main_try imp repo_url of
           Inr result \<Rightarrow> \<lparr>printed = [result], status = Exit 0\<rparr>
         | Inl e \<Rightarrow>
             (case cls e of
                ImportError \<Rightarrow>
                  \<lparr>printed =
                     [failure (py ''gitingest package not installed. Run: pip install gitingest'')],
                   status = Exit 1\<rparr>
              | OtherException \<Rightarrow> \<lparr>printed = [failure (str e)], status = Exit 1\<rparr>
              | SystemExit n \<Rightarrow> \<lparr>printed = [], status = Exit n\<rparr>
              | NonException \<Rightarrow> \<lparr>printed = [], status = Uncaught e\<rparr>)))"

subsection \<open>Reading a result record\<close>

text \<open>
  The two shapes of the result record: the success shape has the keys \<^verbatim>\<open>success\<close>,
  \<^verbatim>\<open>summary\<close>, \<^verbatim>\<open>tree\<close> and \<^verbatim>\<open>content\<close> and no other, with \<^verbatim>\<open>success\<close> true and
  three strings; the failure shape has the keys \<^verbatim>\<open>success\<close> and \<^verbatim>\<open>error\<close> and no
  other, with \<^verbatim>\<open>success\<close> false and a string.
\<close>

definition get :: "py_dict \<Rightarrow> string \<Rightarrow> json_value option" where
  "get d k = map_of d (py k)"

definition keys :: "py_dict \<Rightarrow> py_str list" where
  "keys d = map fst d"

definition is_text :: "json_value option \<Rightarrow> bool" where
  "is_text v = (case v of Some (JStr s) \<Rightarrow> True | _ \<Rightarrow> False)"

definition success_shape :: "py_dict \<Rightarrow> bool" where
  "success_shape d \<longleftrightarrow>
     keys d = [py ''success'', py ''summary'', py ''tree'', py ''content''] \<and>
     get d ''success'' = Some (JBool True) \<and>
     is_text (get d ''summary'') \<and> is_text (get d ''tree'') \<and> is_text (get d ''content'')"

definition failure_shape :: "py_dict \<Rightarrow> bool" where
  "failure_shape d \<longleftrightarrow>
     keys d = [py ''success'', py ''error''] \<and>
     get d ''success'' = Some (JBool False) \<and> is_text (get d ''error'')"

text \<open>A run that printed one record, of exactly one of the two shapes.\<close>

definition one_record_of_one_shape :: "run \<Rightarrow> bool" where
  "one_record_of_one_shape r =
     (case printed r of
        [d] \<Rightarrow> (success_shape d \<and> \<not> failure_shape d) \<or> (failure_shape d \<and> \<not> success_shape d)
      | _ \<Rightarrow> False)"

text \<open>
  The exception the collaborator raises for an identifier, at the import or at the call,
  if it raises one; and the invocations in which it raises one outside \<^verbatim>\<open>Exception\<close>.
  An invocation without an argument never reaches the collaborator.
\<close>

definition collaborator_raises :: "gitingest_import \<Rightarrow> py_str \<Rightarrow> py_exc option" where
  "collaborator_raises imp repo_url =
     (case imp of
        Inl e \<Rightarrow> Some e
      | Inr ingest \<Rightarrow> (case ingest repo_url of Inl e \<Rightarrow> Some e | Inr d \<Rightarrow> None))"

definition raises_outside_Exception :: "py_str list \<Rightarrow> gitingest_import \<Rightarrow> bool" where
  "raises_outside_Exception argv imp =
     (2 \<le> length argv \<and>
      (case collaborator_raises imp (argv ! 1) of
         None \<Rightarrow> False
       | Some e \<Rightarrow> \<not> is_Exception (cls e)))"

text \<open>Two collaborators for concrete runs: one returns a fixed triple, one raises.\<close>

definition returning :: "digest \<Rightarrow> ingest_fn" where
  "returning d repo_url = Inr d"

definition raising :: "py_exc \<Rightarrow> ingest_fn" where
  "raising e repo_url = Inl e"

section \<open>Properties\<close>

subsection \<open>The three ways through \<open>main\<close>\<close>

lemma get_failure:
  "get (failure e) ''success'' = Some (JBool False)"
  "get (failure e) ''error'' = Some (JStr e)"
  by (simp_all add: get_def failure_def py_def)

lemma failure_shape_failure: "failure_shape (failure e)" "\<not> success_shape (failure e)"
  by (simp_all add: failure_shape_def success_shape_def keys_def get_def failure_def py_def
      is_text_def)

lemma success_shape_result:
  "success_shape [(py ''success'', JBool True), (py ''summary'', JStr s),
                  (py ''tree'', JStr t), (py ''content'', JStr c)]"
  "\<not> failure_shape [(py ''success'', JBool True), (py ''summary'', JStr s),
                    (py ''tree'', JStr t), (py ''content'', JStr c)]"
  by (simp_all add: success_shape_def failure_shape_def keys_def get_def py_def is_text_def)

lemma or_empty_Some: "or_empty (Some s) = s"
  by (simp add: or_empty_def truthy_def)

lemma or_empty_None: "or_empty None = []"
  by (simp add: or_empty_def)

lemma main_no_argument:
  "length argv < 2 \<Longrightarrow>
   main argv imp = \<lparr>printed = [failure (py ''No repository URL provided'')], status = Exit 1\<rparr>"
  by (simp add: main_def)

lemma main_returned:
  assumes "2 \<le> length argv" and "ingest (argv ! 1) = Inr (summary, tree, Some c)"
  shows "main argv (Inr ingest) =
           \<lparr>printed = [[(py ''success'', JBool True),
                        (py ''summary'', JStr (or_empty summary)),
                        (py ''tree'', JStr (or_empty tree)),
                        (py ''content'',
                         JStr (if 50000 < length c
                               then take 50000 c @ py ''\<newline>\<newline>... [Content truncated for size]''
                               else c))]],
            status = Exit 0\<rparr>"
  using assms
  by (simp add: main_def main_try_def Let_def or_empty_Some max_content_size_def
      truncation_marker_def)

lemma main_raised:
  assumes "2 \<le> length argv" and "main_try imp (argv ! 1) = Inl e"
  shows "main argv imp =
           (case cls e of
              ImportError \<Rightarrow>
                \<lparr>printed =
                   [failure (py ''gitingest package not installed. Run: pip install gitingest'')],
                 status = Exit 1\<rparr>
            | OtherException \<Rightarrow> \<lparr>printed = [failure (str e)], status = Exit 1\<rparr>
            | SystemExit n \<Rightarrow> \<lparr>printed = [], status = Exit n\<rparr>
            | NonException \<Rightarrow> \<lparr>printed = [], status = Uncaught e\<rparr>)"
  using assms by (simp add: main_def Let_def)

lemma main_try_result:
  "main_try imp repo_url = Inr d \<Longrightarrow>
   \<exists>s t c. d = [(py ''success'', JBool True), (py ''summary'', JStr s),
                (py ''tree'', JStr t), (py ''content'', JStr c)]"
  by (auto simp add: main_try_def Let_def split: sum.splits option.splits prod.splits)

lemma absent_summary_and_tree_become_empty:
  assumes "2 \<le> length argv" and "ingest (argv ! 1) = Inr (None, None, Some c)"
  shows "map (\<lambda>r. get r ''summary'') (printed (main argv (Inr ingest))) = [Some (JStr [])]"
    and "map (\<lambda>r. get r ''tree'') (printed (main argv (Inr ingest))) = [Some (JStr [])]"
  using main_returned [OF assms(1), of ingest None None c] assms(2)
  by (simp_all add: get_def py_def or_empty_None)

lemma returned_text_is_success:
  assumes "2 \<le> length argv" and "ingest (argv ! 1) = Inr (summary, tree, Some c)"
  shows "list_all success_shape (printed (main argv (Inr ingest)))"
    and "length (printed (main argv (Inr ingest))) = 1"
    and "status (main argv (Inr ingest)) = Exit 0"
  using main_returned [OF assms(1), of ingest summary tree c] assms(2)
  by (simp_all add: success_shape_result)

subsection \<open>The printed line\<close>

text \<open>The text on standard output for the usage error, and for the example of the
  specification; a string with every kind of escape.\<close>

lemma usage_error_line:
  \<open>stdout (main [py ''gitingest_wrapper.py''] imp)
     = ''{"success": false, "error": "No repository URL provided"}\<newline>''\<close>
  by (simp add: main_def failure_def stdout_def json_dumps_def dumps_item_def encode_str_def
      py_def encode_char_def char_of_def bit_Suc_0_iff)

lemma example_scenario:
  \<open>stdout (main [py ''gitingest_wrapper.py'', py ''https://github.com/example/repo'']
      (Inr (returning (Some (py ''A sample repo''), Some (py ''repo/\<newline>  file.py''),
                       Some (py ''print('hi')'')))))
     = ''{"success": true, "summary": "A sample repo", "tree": "repo/'' @ [CHR 0x5C]
       @ ''n  file.py", "content": "print('hi')"}\<newline>''\<close>
  by (simp add: main_def main_try_def returning_def Let_def max_content_size_def or_empty_def
      truthy_def stdout_def json_dumps_def dumps_item_def encode_str_def py_def
      encode_char_def char_of_def bit_Suc_0_iff)

lemma encode_str_escapes:
  "encode_str [0x1F600, 0xE9, 0x7F, 0x22, 0x5C, 0x09]
     = [CHR 0x22] @ (CHR 0x5C # ''ud83d'') @ (CHR 0x5C # ''ude00'') @ (CHR 0x5C # ''u00e9'')
       @ (CHR 0x5C # ''u007f'') @ [CHR 0x5C, CHR 0x22] @ [CHR 0x5C, CHR 0x5C]
       @ (CHR 0x5C # ''t'') @ [CHR 0x22]"
  by (simp add: encode_str_def encode_char_def u_escape_def hex_digit_def)

subsection \<open>Truncation\<close>

text \<open>
  C1. When \<^verbatim>\<open>ingest\<close> returns and the content is text of more than 50000 characters, the
  one record printed has \<^verbatim>\<open>success\<close> true and its content is the first 50000 characters
  followed by the marker; the marker has 34 characters, so the content has 50034.
\<close>

theorem truncates_long_content:
  assumes "2 \<le> length argv"
    and "ingest (argv ! 1) = Inr (summary, tree, Some c)"
    and "50000 < length c"
  shows "map (\<lambda>r. get r ''content'') (printed (main argv (Inr ingest))) =
           [Some (JStr (take 50000 c @ py ''\<newline>\<newline>... [Content truncated for size]''))]
         \<and> map (\<lambda>r. get r ''success'') (printed (main argv (Inr ingest))) = [Some (JBool True)]
         \<and> length (take 50000 c @ py ''\<newline>\<newline>... [Content truncated for size]'')
             = 50000 + length (py ''\<newline>\<newline>... [Content truncated for size]'')
         \<and> length (py ''\<newline>\<newline>... [Content truncated for size]'') = 34"
  using assms main_returned [of argv ingest summary tree c] by (simp add: get_def py_def)

theorem truncates_long_content_witness:
  "map (\<lambda>r. get r ''content'')
     (printed (main [py ''gitingest_wrapper.py'', py ''https://github.com/example/repo'']
        (Inr (returning (Some (py ''Repository: example/repo''), Some (py ''repo/''),
                         Some (replicate 50001 97))))))
   = [Some (JStr (replicate 50000 97 @ py ''\<newline>\<newline>... [Content truncated for size]''))]"
  using truncates_long_content
    [of "[py ''gitingest_wrapper.py'', py ''https://github.com/example/repo'']"
        "returning (Some (py ''Repository: example/repo''), Some (py ''repo/''),
                    Some (replicate 50001 97))"
        "Some (py ''Repository: example/repo'')" "Some (py ''repo/'')" "replicate 50001 97"]
  by (simp add: returning_def)

text \<open>
  C7. When \<^verbatim>\<open>ingest\<close> returns and the content is text of at most 50000 characters
  (50000 included), the one record printed has \<^verbatim>\<open>success\<close> true and its content is
  the content returned, with nothing appended.
\<close>

theorem passes_short_content:
  assumes "2 \<le> length argv"
    and "ingest (argv ! 1) = Inr (summary, tree, Some c)"
    and "length c \<le> 50000"
  shows "map (\<lambda>r. get r ''content'') (printed (main argv (Inr ingest))) = [Some (JStr c)]
         \<and> map (\<lambda>r. get r ''success'') (printed (main argv (Inr ingest))) = [Some (JBool True)]"
  using assms main_returned [of argv ingest summary tree c] by (simp add: get_def py_def)

theorem passes_short_content_witness:
  "map (\<lambda>r. get r ''content'')
     (printed (main [py ''gitingest_wrapper.py'', py ''https://github.com/example/repo'']
        (Inr (returning (None, Some (py ''repo/''), Some (replicate 50000 97))))))
   = [Some (JStr (replicate 50000 97))]"
  using passes_short_content
    [of "[py ''gitingest_wrapper.py'', py ''https://github.com/example/repo'']"
        "returning (None, Some (py ''repo/''), Some (replicate 50000 97))"
        None "Some (py ''repo/'')" "replicate 50000 97"]
  by (simp add: returning_def)

subsection \<open>The usage error\<close>

text \<open>
  C5. Run with no argument (\<^verbatim>\<open>sys.argv\<close> shorter than 2), the script prints the failure
  record whose error is "No repository URL provided" and exits with status 1, whatever
  the import would have done.
\<close>

theorem no_argument_is_usage_error:
  assumes "length argv < 2"
  shows "printed (main argv imp) = [failure (py ''No repository URL provided'')]
         \<and> get (failure (py ''No repository URL provided'')) ''error''
             = Some (JStr (py ''No repository URL provided''))
         \<and> get (failure (py ''No repository URL provided'')) ''success'' = Some (JBool False)
         \<and> status (main argv imp) = Exit 1"
  using assms by (simp add: main_no_argument get_failure)

theorem no_argument_is_usage_error_witness:
  "printed (main [py ''gitingest_wrapper.py''] (Inr (returning (None, None, None))))
     = [failure (py ''No repository URL provided'')]
   \<and> status (main [py ''gitingest_wrapper.py''] (Inr (returning (None, None, None)))) = Exit 1"
  using no_argument_is_usage_error
    [of "[py ''gitingest_wrapper.py'']" "Inr (returning (None, None, None))"]
  by simp

text \<open>
  C10. The argument check comes before the import: with no argument the run is the same
  for every outcome of the import, and when the package is missing the record printed
  is the usage error, which differs from the missing-package record.
\<close>

theorem usage_error_precedes_import:
  assumes "length argv < 2"
  shows "main argv imp = main argv imp'
         \<and> printed (main argv (Inl (PyExc ImportError m)))
             = [failure (py ''No repository URL provided'')]
         \<and> failure (py ''No repository URL provided'')
             \<noteq> failure (py ''gitingest package not installed. Run: pip install gitingest'')"
  using assms by (simp add: main_no_argument failure_def py_def)

theorem usage_error_precedes_import_witness:
  "main [py ''gitingest_wrapper.py''] (Inl (PyExc ImportError (py ''No module named gitingest'')))
     = main [py ''gitingest_wrapper.py''] (Inr (returning (Some [], Some [], Some [])))
   \<and> printed (main [py ''gitingest_wrapper.py'']
         (Inl (PyExc ImportError (py ''No module named gitingest''))))
       = [failure (py ''No repository URL provided'')]"
proof -
  have "length [py ''gitingest_wrapper.py''] < 2" by simp
  from usage_error_precedes_import [OF this] show ?thesis by blast
qed

subsection \<open>The two handlers\<close>

text \<open>
  C6, for a run with an argument. When the import raises an \<^verbatim>\<open>ImportError\<close> (the package
  is not installed) and an argument was given, the script prints the failure record
  whose error is "gitingest package not installed. Run: pip install gitingest", a text
  that starts with the name of the package and ends with the command that installs it,
  and exits with status 1.
\<close>

theorem missing_package_is_reported:
  assumes "2 \<le> length argv" and "cls e = ImportError"
  shows "printed (main argv (Inl e))
           = [failure (py ''gitingest package not installed. Run: pip install gitingest'')]
         \<and> py ''gitingest package not installed. Run: pip install gitingest''
             = py ''gitingest'' @ py '' package not installed. Run: '' @ py ''pip install gitingest''
         \<and> status (main argv (Inl e)) = Exit 1"
  using assms main_raised [of argv "Inl e" e]
  by (simp add: main_try_def py_def)

theorem missing_package_is_reported_witness:
  "printed (main [py ''gitingest_wrapper.py'', py ''https://github.com/example/repo'']
      (Inl (PyExc ImportError (py ''No module named gitingest''))))
     = [failure (py ''gitingest package not installed. Run: pip install gitingest'')]
   \<and> status (main [py ''gitingest_wrapper.py'', py ''https://github.com/example/repo'']
      (Inl (PyExc ImportError (py ''No module named gitingest'')))) = Exit 1"
  using missing_package_is_reported
    [of "[py ''gitingest_wrapper.py'', py ''https://github.com/example/repo'']"
        "PyExc ImportError (py ''No module named gitingest'')"]
  by simp

text \<open>
  Without the argument the statement fails: the package is missing, and the error
  printed is the usage error, which names no package.
\<close>

theorem missing_package_counterexample:
  "printed (main [py ''gitingest_wrapper.py'']
      (Inl (PyExc ImportError (py ''No module named gitingest''))))
     = [failure (py ''No repository URL provided'')]
   \<and> failure (py ''No repository URL provided'')
       \<noteq> failure (py ''gitingest package not installed. Run: pip install gitingest'')"
  by (simp add: main_def failure_def py_def)

text \<open>
  C2, for an exception that reaches the second handler. When the call of \<^verbatim>\<open>ingest\<close>
  raises an instance of \<^verbatim>\<open>Exception\<close> that is not an \<^verbatim>\<open>ImportError\<close>, the script prints
  the failure record whose error is \<^verbatim>\<open>str(e)\<close>, and exits with status 1.
\<close>

theorem ingest_error_is_reported:
  assumes "2 \<le> length argv"
    and "ingest (argv ! 1) = Inl e"
    and "cls e = OtherException"
  shows "printed (main argv (Inr ingest)) = [failure (str e)]
         \<and> get (failure (str e)) ''error'' = Some (JStr (str e))
         \<and> get (failure (str e)) ''success'' = Some (JBool False)
         \<and> status (main argv (Inr ingest)) = Exit 1"
  using assms main_raised [of argv "Inr ingest" e]
  by (simp add: main_try_def get_failure)

theorem ingest_error_is_reported_witness:
  "printed (main [py ''gitingest_wrapper.py'', py ''https://github.com/example/none'']
      (Inr (raising (PyExc OtherException (py ''Repository not found'')))))
     = [failure (py ''Repository not found'')]
   \<and> status (main [py ''gitingest_wrapper.py'', py ''https://github.com/example/none'']
      (Inr (raising (PyExc OtherException (py ''Repository not found''))))) = Exit 1"
  using ingest_error_is_reported
    [of "[py ''gitingest_wrapper.py'', py ''https://github.com/example/none'']"
        "raising (PyExc OtherException (py ''Repository not found''))"
        "PyExc OtherException (py ''Repository not found'')"]
  by (simp add: raising_def)

text \<open>
  For the other exceptions the statement fails. An \<^verbatim>\<open>ImportError\<close> raised by the call
  is caught by the first handler, whose message is fixed; an exception outside
  \<^verbatim>\<open>Exception\<close> is caught by neither, and nothing is printed.
\<close>

theorem ingest_error_counterexample:
  "printed (main [py ''gitingest_wrapper.py'', py ''https://github.com/example/repo'']
      (Inr (raising (PyExc ImportError (py ''No module named git'')))))
     \<noteq> [failure (py ''No module named git'')]
   \<and> printed (main [py ''gitingest_wrapper.py'', py ''https://github.com/example/repo'']
      (Inr (raising (PyExc NonException (py ''interrupted'')))))
     \<noteq> [failure (py ''interrupted'')]"
  by (simp add: main_def main_try_def raising_def failure_def py_def)

subsection \<open>Absent content\<close>

text \<open>
  C3. The substitution of the empty string holds for the summary and the tree
  (\<open>absent_summary_and_tree_become_empty\<close>), and fails for the content: \<^verbatim>\<open>len(content)\<close>
  on line 31 raises before \<^verbatim>\<open>content or ""\<close> on line 38 is reached, so a triple whose
  content is \<^verbatim>\<open>None\<close> gives a failure record and status 1.
\<close>

theorem missing_content_is_reported_as_failure:
  "main [py ''gitingest_wrapper.py'', py ''https://github.com/example/repo'']
      (Inr (returning (Some (py ''Repository: example/repo''), Some (py ''repo/''), None)))
     = \<lparr>printed = [failure (py ''object of type 'NoneType' has no len()'')],
        status = Exit 1\<rparr>"
  by (simp add: main_def main_try_def returning_def len_None_error_def)

text \<open>
  C9. A call of \<^verbatim>\<open>ingest\<close> that returns gives a success record and status 0 when the
  content is text (\<open>returned_text_is_success\<close>). When the call returns three
  \<^verbatim>\<open>None\<close>, the same \<^verbatim>\<open>len(content)\<close> raises: the status is 1 and the record printed
  is not a success record.
\<close>

theorem empty_digest_exits_nonzero:
  "status (main [py ''gitingest_wrapper.py'', py ''https://github.com/example/empty'']
      (Inr (returning (None, None, None)))) = Exit 1
   \<and> map success_shape
        (printed (main [py ''gitingest_wrapper.py'', py ''https://github.com/example/empty'']
           (Inr (returning (None, None, None))))) = [False]"
  by (simp add: main_def main_try_def returning_def len_None_error_def failure_shape_failure)

subsection \<open>The shape of the record\<close>

lemma main_try_raises:
  "main_try imp repo_url = Inl e \<Longrightarrow>
   collaborator_raises imp repo_url = Some e \<or> e = len_None_error"
  by (auto simp add: main_try_def collaborator_raises_def Let_def
      split: sum.splits option.splits prod.splits)

lemma no_record_when_exception_escapes:
  assumes "raises_outside_Exception argv imp"
  shows "printed (main argv imp) = []"
proof -
  from assms have len: "2 \<le> length argv"
    by (simp add: raises_outside_Exception_def)
  from assms obtain e where e: "collaborator_raises imp (argv ! 1) = Some e"
    and out: "\<not> is_Exception (cls e)"
    by (auto simp add: raises_outside_Exception_def split: option.splits)
  from e have "main_try imp (argv ! 1) = Inl e"
    by (auto simp add: collaborator_raises_def main_try_def split: sum.splits)
  with len out show ?thesis
    by (cases "cls e") (simp_all add: main_raised [of argv imp e])
qed

text \<open>
  C4, for a run in which the collaborator raises nothing outside \<^verbatim>\<open>Exception\<close>. Such a
  run prints exactly one record, and the record has exactly one of the two shapes: the
  success shape, and then the status is 0, or the failure shape, and then the status
  is 1.
\<close>

theorem record_has_exactly_one_shape:
  assumes "\<not> raises_outside_Exception argv imp"
  shows "one_record_of_one_shape (main argv imp)
         \<and> (list_all success_shape (printed (main argv imp)) \<and> status (main argv imp) = Exit 0
            \<or> list_all failure_shape (printed (main argv imp)) \<and> status (main argv imp) = Exit 1)"
proof (cases "length argv < 2")
  case True
  then show ?thesis
    by (simp add: main_no_argument one_record_of_one_shape_def failure_shape_failure)
next
  case False
  then have len: "2 \<le> length argv" by simp
  show ?thesis
  proof (cases "main_try imp (argv ! 1)")
    case (Inl e)
    from main_try_raises [OF Inl] assms len have "is_Exception (cls e)"
      by (auto simp add: raises_outside_Exception_def len_None_error_def)
    with len Inl show ?thesis
      by (cases "cls e")
        (simp_all add: main_raised [of argv imp e] one_record_of_one_shape_def
          failure_shape_failure)
  next
    case (Inr d)
    from main_try_result [OF Inr] obtain s t c where
      "d = [(py ''success'', JBool True), (py ''summary'', JStr s),
            (py ''tree'', JStr t), (py ''content'', JStr c)]" by blast
    with len Inr show ?thesis
      by (simp add: main_def one_record_of_one_shape_def success_shape_result)
  qed
qed

theorem record_has_exactly_one_shape_witness:
  "\<not> raises_outside_Exception
       [py ''gitingest_wrapper.py'', py ''https://github.com/example/none'']
       (Inr (raising (PyExc OtherException (py ''Repository not found''))))
   \<and> one_record_of_one_shape
       (main [py ''gitingest_wrapper.py'', py ''https://github.com/example/none'']
          (Inr (raising (PyExc OtherException (py ''Repository not found'')))))
   \<and> status
       (main [py ''gitingest_wrapper.py'', py ''https://github.com/example/none'']
          (Inr (raising (PyExc OtherException (py ''Repository not found''))))) = Exit 1"
proof -
  have h: "\<not> raises_outside_Exception
       [py ''gitingest_wrapper.py'', py ''https://github.com/example/none'']
       (Inr (raising (PyExc OtherException (py ''Repository not found''))))"
    by (simp add: raises_outside_Exception_def collaborator_raises_def raising_def)
  have "status
       (main [py ''gitingest_wrapper.py'', py ''https://github.com/example/none'']
          (Inr (raising (PyExc OtherException (py ''Repository not found''))))) = Exit 1"
    by (simp add: main_def main_try_def raising_def)
  with h record_has_exactly_one_shape [OF h] show ?thesis by simp
qed

text \<open>
  For every run the statement fails: when the call raises an exception outside
  \<^verbatim>\<open>Exception\<close>, neither handler catches it and no record is printed, of either shape.
  With a \<^verbatim>\<open>SystemExit\<close> of code 0 the status is 0 although nothing was printed.
\<close>

theorem record_shape_counterexample:
  "\<not> one_record_of_one_shape
       (main [py ''gitingest_wrapper.py'', py ''https://github.com/example/repo'']
          (Inr (raising (PyExc NonException (py ''interrupted'')))))
   \<and> main [py ''gitingest_wrapper.py'', py ''https://github.com/example/repo'']
          (Inr (raising (PyExc (SystemExit 0) [])))
       = \<lparr>printed = [], status = Exit 0\<rparr>"
  by (simp add: main_def main_try_def raising_def one_record_of_one_shape_def)

subsection \<open>What the output depends on\<close>

text \<open>
  C8. The output is a function of the identifier and of what \<^verbatim>\<open>ingest\<close> gives for it:
  two runs with the same first argument, whose collaborators agree on that argument,
  write the same text to standard output and end with the same status, whatever the
  program name and the further arguments are.
\<close>

theorem output_depends_on_identifier_only:
  assumes "2 \<le> length argv" and "2 \<le> length argv'"
    and "argv ! 1 = argv' ! 1"
    and "ingest (argv ! 1) = ingest' (argv' ! 1)"
  shows "stdout (main argv (Inr ingest)) = stdout (main argv' (Inr ingest'))
         \<and> status (main argv (Inr ingest)) = status (main argv' (Inr ingest'))"
  using assms by (simp add: main_def main_try_def Let_def)

theorem output_depends_on_identifier_only_witness:
  "stdout (main [py ''gitingest_wrapper.py'', py ''https://github.com/example/repo'']
      (Inr (returning (Some (py ''A sample repo''), Some (py ''repo/''), Some (py ''x = 1'')))))
   = stdout (main [py ''./scripts/gitingest_wrapper.py'', py ''https://github.com/example/repo'',
                   py ''--verbose'']
      (Inr (returning (Some (py ''A sample repo''), Some (py ''repo/''), Some (py ''x = 1'')))))"
  using output_depends_on_identifier_only
    [of "[py ''gitingest_wrapper.py'', py ''https://github.com/example/repo'']"
        "[py ''./scripts/gitingest_wrapper.py'', py ''https://github.com/example/repo'',
          py ''--verbose'']"
        "returning (Some (py ''A sample repo''), Some (py ''repo/''), Some (py ''x = 1''))"
        "returning (Some (py ''A sample repo''), Some (py ''repo/''), Some (py ''x = 1''))"]
  by (simp add: returning_def)

end
